theory Spec2Isabelle
  imports Main "HOL-Library.Sublist" "HOL-Library.Multiset" "HOL-Library.AList"
begin

section \<open>Python values and string helpers\<close>

text \<open>
  Strings are modelled as lists of code points below 256 (\<^typ>\<open>char\<close>). On that range
  Python's \<^verbatim>\<open>str.lower\<close>, \<^verbatim>\<open>str.strip\<close> and the regex class \<^verbatim>\<open>\d\<close> behave as
  written below.
\<close>

datatype error = AttributeError | IndexError | TypeError | KeyError | ValueError | YAMLError | OSError

text \<open>The value stored under a dictionary key: key missing, \<^verbatim>\<open>None\<close>, or a value.\<close>

datatype 'a slot = Absent | PyNone | Val 'a

definition code_point :: "char \<Rightarrow> nat" where
  "code_point c = of_char c"

definition is_space :: "char \<Rightarrow> bool" where
  "is_space c = (let n = code_point c in
     (9 \<le> n \<and> n \<le> 13) \<or> (28 \<le> n \<and> n \<le> 32) \<or> n = 133 \<or> n = 160)"

definition is_digit :: "char \<Rightarrow> bool" where
  "is_digit c = (let n = code_point c in 48 \<le> n \<and> n \<le> 57)"

definition lower_char :: "char \<Rightarrow> char" where
  "lower_char c = (let n = code_point c in
     if (65 \<le> n \<and> n \<le> 90) \<or> (192 \<le> n \<and> n \<le> 222 \<and> n \<noteq> 215)
     then char_of (n + 32) else c)"

definition lower :: "string \<Rightarrow> string" where
  "lower s = map lower_char s"

definition strip :: "string \<Rightarrow> string" where
  "strip s = rev (dropWhile is_space (rev (dropWhile is_space s)))"

text \<open>\<^verbatim>\<open>s.replace(c, '')\<close> for a one-character \<^verbatim>\<open>c\<close>.\<close>

definition remove_char :: "char \<Rightarrow> string \<Rightarrow> string" where
  "remove_char c s = filter (\<lambda>d. d \<noteq> c) s"

text \<open>\<^verbatim>\<open>needle in hay\<close> on strings.\<close>

fun str_in :: "string \<Rightarrow> string \<Rightarrow> bool" where
  "str_in needle [] = (needle = [])"
| "str_in needle (h # hs) = (prefix needle (h # hs) \<or> str_in needle hs)"

section \<open>Candidate records (the result dictionaries of create-book-notes.py)\<close>

record book =
  title :: "string slot"
  subtitle :: "string slot"
  authors :: "string list slot"
  publisher :: "string slot"
  publishedDate :: "string slot"
  pageCount :: "int slot"
  categories :: "string list slot"
  isbn :: "string slot"
  coverUrl :: "string slot"
  source :: "string slot"

section \<open>Deduplication (search_books_by_title_author, lines 87-100)\<close>

text \<open>\<^verbatim>\<open>result.get('isbn', '').replace(',', '').replace(' ', '')\<close>\<close>

definition isbn_key :: "book \<Rightarrow> error + string" where
  "isbn_key result = (case isbn result of
       Absent \<Rightarrow> Inr []
     | PyNone \<Rightarrow> Inl AttributeError
     | Val s \<Rightarrow> Inr (remove_char CHR '' '' (remove_char CHR '','' s)))"

text \<open>
  \<^verbatim>\<open>f"{result.get('title', '').lower().strip()}_{result.get('authors', [''])[0].lower().strip()}"\<close>
\<close>

definition title_key :: "book \<Rightarrow> error + string" where
  "title_key result = (case title result of
       PyNone \<Rightarrow> Inl AttributeError
     | t \<Rightarrow> (let ts = (case t of Val s \<Rightarrow> s | _ \<Rightarrow> []) in
         (case authors result of
            PyNone \<Rightarrow> Inl TypeError
          | Val [] \<Rightarrow> Inl IndexError
          | Val (a # _) \<Rightarrow> Inr (strip (lower ts) @ ''_'' @ strip (lower a))
          | Absent \<Rightarrow> Inr (strip (lower ts) @ ''_'' @ strip (lower [])))))"

text \<open>\<^verbatim>\<open>key = isbn_key if isbn_key else title_key\<close>; both are computed first.\<close>

definition dedup_key :: "book \<Rightarrow> error + string" where
  "dedup_key result = (case isbn_key result of
       Inl e \<Rightarrow> Inl e
     | Inr ik \<Rightarrow> (case title_key result of
         Inl e \<Rightarrow> Inl e
       | Inr tk \<Rightarrow> Inr (if ik \<noteq> [] then ik else tk)))"

text \<open>The loop over \<^verbatim>\<open>all_results\<close> with its two accumulators \<^verbatim>\<open>seen\<close> and \<^verbatim>\<open>unique_results\<close>.\<close>

fun dedup_loop :: "string set \<Rightarrow> book list \<Rightarrow> book list \<Rightarrow> error + book list" where
  "dedup_loop seen unique_results [] = Inr unique_results"
| "dedup_loop seen unique_results (result # rest) = (case dedup_key result of
       Inl e \<Rightarrow> Inl e
     | Inr key \<Rightarrow>
         if key \<noteq> [] \<and> key \<notin> seen
         then dedup_loop (insert key seen) (unique_results @ [result]) rest
         else dedup_loop seen unique_results rest)"

definition deduplicate :: "book list \<Rightarrow> error + book list" where
  "deduplicate all_results = dedup_loop {} [] all_results"

text \<open>A candidate dictionary with every key present and set to \<^verbatim>\<open>None\<close> or empty.\<close>

definition blank :: book where
  "blank = \<lparr>title = PyNone, subtitle = PyNone, authors = Val [], publisher = PyNone,
     publishedDate = PyNone, pageCount = PyNone, categories = Val [], isbn = PyNone,
     coverUrl = PyNone, source = Absent\<rparr>"

text \<open>The two adapter results of the Dune scenario.\<close>

definition dune_a :: book where
  "dune_a = blank\<lparr>title := Val ''Dune'', authors := Val [''Frank Herbert''],
     isbn := Val ''978-0-441-01359-3'', publishedDate := Val ''1990''\<rparr>"

definition dune_b :: book where
  "dune_b = blank\<lparr>title := Val ''Dune'', authors := Val [''Frank Herbert''],
     isbn := Val ''9780441013593'', publishedDate := Val ''1965''\<rparr>"

text \<open>What \<^verbatim>\<open>_format_google_result\<close> returns for a volume that has a title and nothing else.\<close>

definition title_only :: book where
  "title_only = blank\<lparr>title := Val ''Dune''\<rparr>"

text \<open>Two candidates whose ISBN strings differ in a space only.\<close>

definition dune_both :: book where
  "dune_both = dune_b\<lparr>isbn := Val ''0441013593, 9780441013593''\<rparr>"

definition dune_both_tight :: book where
  "dune_both_tight = dune_b\<lparr>isbn := Val ''0441013593,9780441013593'', publishedDate := Val ''1984''\<rparr>"

section \<open>ISBN extraction in the adapters\<close>

text \<open>
  An entry of \<^verbatim>\<open>volume['industryIdentifiers']\<close>: its \<^verbatim>\<open>'type'\<close> and its \<^verbatim>\<open>'identifier'\<close>.
\<close>

type_synonym industry_identifier = "string \<times> string"

text \<open>
  The loop of \<^verbatim>\<open>_format_google_result\<close> (create-book-notes.py, lines 199-205) and of
  \<^verbatim>\<open>_search_google_books\<close> (clean-book-notes.py, lines 220-226): the state is
  \<^verbatim>\<open>(isbn_10, isbn_13)\<close>, both \<^verbatim>\<open>None\<close> at the start.
\<close>

definition isbn_step :: "string option \<times> string option \<Rightarrow> industry_identifier \<Rightarrow> string option \<times> string option" where
  "isbn_step st ident =
     (if fst ident = ''ISBN_10'' then (Some (snd ident), snd st)
      else if fst ident = ''ISBN_13'' then (fst st, Some (snd ident))
      else st)"

text \<open>Truth value of an optional string: \<^verbatim>\<open>None\<close> and \<^verbatim>\<open>''\<close> are false.\<close>

definition truthy :: "string option \<Rightarrow> bool" where
  "truthy v = (case v of None \<Rightarrow> False | Some s \<Rightarrow> s \<noteq> [])"

definition str_of :: "string option \<Rightarrow> string" where
  "str_of v = (case v of None \<Rightarrow> [] | Some s \<Rightarrow> s)"

text \<open>The \<^verbatim>\<open>if isbn_10 and isbn_13: ... elif isbn_13: ... elif isbn_10: ...\<close> chain; the field starts as \<^verbatim>\<open>None\<close>.\<close>

definition join_isbns :: "string option \<Rightarrow> string option \<Rightarrow> string slot" where
  "join_isbns isbn_10 isbn_13 =
     (if truthy isbn_10 \<and> truthy isbn_13 then Val (str_of isbn_10 @ '', '' @ str_of isbn_13)
      else if truthy isbn_13 then Val (str_of isbn_13)
      else if truthy isbn_10 then Val (str_of isbn_10)
      else PyNone)"

definition google_isbn :: "industry_identifier list \<Rightarrow> string slot" where
  "google_isbn identifiers =
     (let st = foldl isbn_step (None, None) identifiers in join_isbns (fst st) (snd st))"

text \<open>
  \<^verbatim>\<open>_search_open_library\<close> (both scripts): \<^verbatim>\<open>isbns = book.get('isbn', [])\<close>, then the two
  comprehensions by length without hyphens.
\<close>

definition isbns_of_length :: "nat \<Rightarrow> string list \<Rightarrow> string list" where
  "isbns_of_length n isbns = filter (\<lambda>i. length (remove_char CHR ''-'' i) = n) isbns"

definition open_library_isbn :: "string list slot \<Rightarrow> string slot" where
  "open_library_isbn v =
     (case v of
        Val (i # rest) \<Rightarrow>
          (case (isbns_of_length 10 (i # rest), isbns_of_length 13 (i # rest)) of
             (a # _, b # _) \<Rightarrow> Val (a @ '', '' @ b)
           | ([], b # _) \<Rightarrow> Val b
           | (a # _, []) \<Rightarrow> Val a
           | ([], []) \<Rightarrow> PyNone)
      | _ \<Rightarrow> PyNone)"

text \<open>
  \<^verbatim>\<open>_fetch_open_library_isbn\<close> (clean-book-notes.py, lines 305-355). The JSON document of an
  edition: the keys the function reads, and the two keys \<^verbatim>\<open>isbn_10\<close> and \<^verbatim>\<open>isbn_13\<close> under which
  Open Library lists the ISBNs of the edition, which the function does not read. An entry of
  \<^verbatim>\<open>authors\<close> is its \<^verbatim>\<open>'key'\<close>, if it has one.
\<close>

record edition =
  ed_title :: "string slot"
  ed_subtitle :: "string slot"
  ed_authors :: "string option list slot"
  ed_publishers :: "string list slot"
  ed_publish_date :: "string slot"
  ed_number_of_pages :: "int slot"
  ed_subjects :: "string list slot"
  ed_covers :: "int list slot"
  ed_isbn_10 :: "string list slot"
  ed_isbn_13 :: "string list slot"

text \<open>\<^verbatim>\<open>book.get(key)\<close> stored in the result: a missing key gives \<^verbatim>\<open>None\<close>.\<close>

definition stored :: "'a slot \<Rightarrow> 'a slot" where
  "stored v = (case v of Absent \<Rightarrow> PyNone | x \<Rightarrow> x)"

text \<open>An integer inside an f-string.\<close>

fun str_nat :: "nat \<Rightarrow> string" where
  "str_nat n = (if n < 10 then [char_of (48 + n)]
                else str_nat (n div 10) @ [char_of (48 + n mod 10)])"

definition str_int :: "int \<Rightarrow> string" where
  "str_int i = (if i < 0 then CHR ''-'' # str_nat (nat (- i)) else str_nat (nat i))"

text \<open>
  \<open>get_edition\<close> is the request for \<^verbatim>\<open>/isbn/{isbn}.json\<close> (\<open>None\<close> when it raises), \<open>get_author_name\<close>
  the request for an author (\<open>None\<close> when it raises or the answer has no \<^verbatim>\<open>'name'\<close>). Iterating
  over \<^verbatim>\<open>book['authors']\<close> when it is \<^verbatim>\<open>None\<close> raises; the exception is caught and the function
  returns \<^verbatim>\<open>None\<close>. The argument \<^verbatim>\<open>isbn\<close> is \<open>q_isbn\<close> here, as \<open>isbn\<close> is the record field.
\<close>

definition fetch_open_library_isbn ::
  "(string \<Rightarrow> edition option) \<Rightarrow> (string \<Rightarrow> string option) \<Rightarrow> string \<Rightarrow> book option" where
  "fetch_open_library_isbn get_edition get_author_name q_isbn =
     (case get_edition q_isbn of
        None \<Rightarrow> None
      | Some book \<Rightarrow>
          (case ed_authors book of
             PyNone \<Rightarrow> None
           | refs \<Rightarrow>
               Some \<lparr>title = stored (ed_title book),
                     subtitle = stored (ed_subtitle book),
                     authors = Val (concat (map (\<lambda>author_ref. case author_ref of
                                                  None \<Rightarrow> []
                                                | Some key \<Rightarrow> (case get_author_name key of
                                                    None \<Rightarrow> []
                                                  | Some name \<Rightarrow> [name]))
                                             (case refs of Val rs \<Rightarrow> rs | _ \<Rightarrow> []))),
                     publisher = (case ed_publishers book of Val (p # _) \<Rightarrow> Val p | _ \<Rightarrow> PyNone),
                     publishedDate = stored (ed_publish_date book),
                     pageCount = stored (ed_number_of_pages book),
                     categories = (case ed_subjects book of
                                     Val (x # xs) \<Rightarrow> Val (take 3 (x # xs))
                                   | _ \<Rightarrow> Val []),
                     isbn = Val q_isbn,
                     coverUrl = (case ed_covers book of
                                   Val (c # _) \<Rightarrow>
                                     Val (''https://covers.openlibrary.org/b/id/'' @ str_int c @ ''-L.jpg'')
                                 | _ \<Rightarrow> PyNone),
                     source = Absent\<rparr>))"

subsection \<open>What the source lists\<close>

text \<open>The identifiers of type \<open>t\<close> that a Google volume lists, the empty ones left out.\<close>

definition listed :: "string \<Rightarrow> industry_identifier list \<Rightarrow> string list" where
  "listed t identifiers = filter (\<lambda>s. s \<noteq> []) (map snd (filter (\<lambda>i. fst i = t) identifiers))"

text \<open>
  The ISBNs of \<open>n\<close> characters, hyphens not counted, that an Open Library search document lists.
\<close>

definition listed_ol :: "nat \<Rightarrow> string list slot \<Rightarrow> string list" where
  "listed_ol n v = (case v of
       Val isbns \<Rightarrow> filter (\<lambda>i. length (filter (\<lambda>c. c \<noteq> CHR ''-'') i) = n) isbns
     | _ \<Rightarrow> [])"

text \<open>A Google volume and an Open Library document that carry both ISBNs of Dune.\<close>

definition dune_identifiers :: "industry_identifier list" where
  "dune_identifiers = [(''ISBN_10'', ''0441013593''), (''ISBN_13'', ''9780441013593'')]"

definition dune_ol_isbns :: "string list slot" where
  "dune_ol_isbns = Val [''9780441013593'', ''0441013593'']"

text \<open>An edition document that lists both ISBNs, and the two requests answering with it.\<close>

definition dune_edition :: edition where
  "dune_edition = \<lparr>ed_title = Val ''Dune'', ed_subtitle = Absent,
     ed_authors = Val [Some ''/authors/OL79034A''], ed_publishers = Val [''Ace''],
     ed_publish_date = Val ''1990'', ed_number_of_pages = Val 535, ed_subjects = Absent,
     ed_covers = Val [42], ed_isbn_10 = Val [''0441013593''],
     ed_isbn_13 = Val [''9780441013593'']\<rparr>"

definition edition_answers :: "string \<Rightarrow> edition option" where
  "edition_answers q_isbn = Some dune_edition"

definition author_answers :: "string \<Rightarrow> string option" where
  "author_answers key = Some ''Frank Herbert''"

section \<open>Ranking (search_books_by_title_author, lines 102-132)\<close>

text \<open>\<^verbatim>\<open>re.findall(r'\d{4}', pub_date)[0]\<close>: the leftmost four consecutive digits, if any.\<close>

fun find_year :: "string \<Rightarrow> string option" where
  "find_year [] = None"
| "find_year (c # cs) =
     (if 4 \<le> length (c # cs) \<and> list_all is_digit (take 4 (c # cs))
      then Some (take 4 (c # cs)) else find_year cs)"

text \<open>\<^verbatim>\<open>int(s)\<close> on a string of decimal digits.\<close>

definition int_of_digits :: "string \<Rightarrow> int" where
  "int_of_digits s = foldl (\<lambda>n c. 10 * n + (int (code_point c) - 48)) 0 s"

text \<open>
  The nested function \<^verbatim>\<open>relevance_score(book)\<close>; the arguments \<^verbatim>\<open>title\<close> (here \<open>q_title\<close>,
  as \<open>title\<close> is the record field) and \<^verbatim>\<open>author\<close> are those of the enclosing search.
\<close>

definition title_points :: "string \<Rightarrow> book \<Rightarrow> error + int" where
  "title_points q_title book = (case title book of
       PyNone \<Rightarrow> Inl AttributeError
     | t \<Rightarrow> (let book_title = lower (case t of Val s \<Rightarrow> s | _ \<Rightarrow> []);
                 search_title = lower q_title
             in Inr (if book_title = search_title then 100
                     else if str_in search_title book_title \<or> str_in book_title search_title then 50
                     else 0)))"

definition author_points :: "string \<Rightarrow> book \<Rightarrow> error + int" where
  "author_points author book =
     (if author \<noteq> [] then
        (case authors book of
           PyNone \<Rightarrow> Inl TypeError
         | Absent \<Rightarrow> Inr 0
         | Val as \<Rightarrow>
             (let book_authors = map lower as
              in Inr (if list_ex (\<lambda>ba. str_in (lower author) ba \<or> str_in ba (lower author)) book_authors
                      then 30 else 0)))
      else Inr 0)"

definition date_points :: "book \<Rightarrow> int" where
  "date_points book = (case publishedDate book of
       Val pub_date \<Rightarrow>
         (if pub_date \<noteq> [] then
            (case find_year pub_date of
               None \<Rightarrow> 0
             | Some y \<Rightarrow> min (int_of_digits y - 1900) 25)
          else 0)
     | _ \<Rightarrow> 0)"

definition relevance_score :: "string \<Rightarrow> string \<Rightarrow> book \<Rightarrow> error + int" where
  "relevance_score q_title author book = (case title_points q_title book of
       Inl e \<Rightarrow> Inl e
     | Inr s1 \<Rightarrow> (case author_points author book of
         Inl e \<Rightarrow> Inl e
       | Inr s2 \<Rightarrow> Inr (s1 + s2 + date_points book)))"

text \<open>
  \<^verbatim>\<open>unique_results.sort(key=relevance_score, reverse=True)\<close>: the keys of all elements are
  computed first, an exception of the key function leaves the sort; the sort is stable and
  descending. Then \<^verbatim>\<open>unique_results[:5]\<close>.
\<close>

fun score_all :: "string \<Rightarrow> string \<Rightarrow> book list \<Rightarrow> error + int list" where
  "score_all q_title author [] = Inr []"
| "score_all q_title author (b # bs) = (case relevance_score q_title author b of
       Inl e \<Rightarrow> Inl e
     | Inr s \<Rightarrow> (case score_all q_title author bs of
         Inl e \<Rightarrow> Inl e
       | Inr ss \<Rightarrow> Inr (s # ss)))"

definition rank :: "string \<Rightarrow> string \<Rightarrow> book list \<Rightarrow> error + book list" where
  "rank q_title author unique_results = (case score_all q_title author unique_results of
       Inl e \<Rightarrow> Inl e
     | Inr scores \<Rightarrow>
         Inr (take 5 (map fst (sort_key (\<lambda>p. - snd p) (zip unique_results scores)))))"

subsection \<open>The reference score, from the specification\<close>

text \<open>The candidate's fields as the specification's data model has them.\<close>

definition cand_title :: "book \<Rightarrow> string" where
  "cand_title c = (case title c of Val s \<Rightarrow> s | _ \<Rightarrow> [])"

definition cand_authors :: "book \<Rightarrow> string list" where
  "cand_authors c = (case authors c of Val as \<Rightarrow> as | _ \<Rightarrow> [])"

definition cand_date :: "book \<Rightarrow> string" where
  "cand_date c = (case publishedDate c of Val d \<Rightarrow> d | _ \<Rightarrow> [])"

text \<open>The first 4-digit run: the four characters at the least position where four digits start.\<close>

definition four_digits :: "string \<Rightarrow> bool" where
  "four_digits w = (length w = 4 \<and> (\<forall>ch\<in>set w. is_digit ch))"

definition digit_value :: "char \<Rightarrow> int" where
  "digit_value ch = int (code_point ch) - 48"

definition spec_year :: "string \<Rightarrow> int option" where
  "spec_year d =
     (case find (\<lambda>i. four_digits (take 4 (drop i d))) [0..<length d] of
        None \<Rightarrow> None
      | Some i \<Rightarrow> Some (1000 * digit_value (d ! i) + 100 * digit_value (d ! (i + 1))
                        + 10 * digit_value (d ! (i + 2)) + digit_value (d ! (i + 3))))"

definition spec_score :: "string \<Rightarrow> string \<Rightarrow> book \<Rightarrow> int" where
  "spec_score q_title author c =
     (if lower (cand_title c) = lower q_title then 100
      else if str_in (lower q_title) (lower (cand_title c)) \<or> str_in (lower (cand_title c)) (lower q_title)
      then 50 else 0)
     + (if author \<noteq> [] \<and> (\<exists>a\<in>set (cand_authors c).
              str_in (lower author) (lower a) \<or> str_in (lower a) (lower author))
        then 30 else 0)
     + (case spec_year (cand_date c) of None \<Rightarrow> 0 | Some y \<Rightarrow> min (y - 1900) 25)"

text \<open>An exact title match of 1815 and a partial title match of 2020.\<close>

definition emma_1815 :: book where
  "emma_1815 = blank\<lparr>title := Val ''Emma'', authors := Val [''Jane Austen''],
     isbn := Val ''9780141439587'', publishedDate := Val ''1815''\<rparr>"

definition emma_2020 :: book where
  "emma_2020 = blank\<lparr>title := Val ''Emma Watson'', authors := Val [''Anna Smith''],
     isbn := Val ''9781234567897'', publishedDate := Val ''2020-03-01''\<rparr>"

section \<open>Book notes and the backfill of clean-book-notes.py\<close>

text \<open>
  The attributes of \<^verbatim>\<open>BookNote\<close> that the cleaner reads; the field names carry the prefix
  \<open>note_\<close> since \<open>title\<close>, \<open>subtitle\<close>, \<open>publisher\<close> and \<open>isbn\<close> are fields of the candidate
  record already.
\<close>

record BookNote =
  note_title :: "string option"
  note_subtitle :: "string option"
  note_author :: "string list"
  note_category :: "string list"
  note_publisher :: "string option"
  note_publish :: "string option"
  note_total :: "int option"
  note_isbn :: "string option"
  note_cover :: "string option"
  note_localCover :: "string option"

text \<open>The values that the cleaner stores in \<^verbatim>\<open>updates\<close>.\<close>

datatype pyval = Str string | Num int | StrList "string list"

type_synonym updates = "(string \<times> pyval) list"

text \<open>\<^verbatim>\<open>api_data.get(key)\<close> and the truth value of what it returns.\<close>

definition get_slot :: "'a slot \<Rightarrow> 'a option" where
  "get_slot v = (case v of Val x \<Rightarrow> Some x | _ \<Rightarrow> None)"

definition truthy_list :: "'a list option \<Rightarrow> bool" where
  "truthy_list v = (case v of None \<Rightarrow> False | Some xs \<Rightarrow> xs \<noteq> [])"

definition truthy_int :: "int option \<Rightarrow> bool" where
  "truthy_int v = (case v of None \<Rightarrow> False | Some n \<Rightarrow> n \<noteq> 0)"

definition list_of :: "'a list option \<Rightarrow> 'a list" where
  "list_of v = (case v of None \<Rightarrow> [] | Some xs \<Rightarrow> xs)"

definition int_of :: "int option \<Rightarrow> int" where
  "int_of v = (case v of None \<Rightarrow> 0 | Some n \<Rightarrow> n)"

text \<open>\<^verbatim>\<open>if cond: updates[key] = value\<close>\<close>

definition put_if :: "bool \<Rightarrow> string \<Rightarrow> pyval \<Rightarrow> updates \<Rightarrow> updates" where
  "put_if cond key v ups = (if cond then AList.update key v ups else ups)"

text \<open>Lines 451-479 of \<^verbatim>\<open>BookNotesCleaner.run\<close>: the nine guarded assignments, in order.\<close>

definition field_updates :: "BookNote \<Rightarrow> book \<Rightarrow> updates" where
  "field_updates book api_data =
     (let ups = [];
          ups = put_if (\<not> truthy (note_title book) \<and> truthy (get_slot (title api_data)))
                  ''title'' (Str (str_of (get_slot (title api_data)))) ups;
          ups = put_if (\<not> truthy (note_subtitle book) \<and> truthy (get_slot (subtitle api_data)))
                  ''subtitle'' (Str (str_of (get_slot (subtitle api_data)))) ups;
          ups = put_if (note_author book = [] \<and> truthy_list (get_slot (authors api_data)))
                  ''author''
                  (StrList (map (\<lambda>author. ''[['' @ author @ '']]'') (list_of (get_slot (authors api_data)))))
                  ups;
          ups = put_if (\<not> truthy (note_publisher book) \<and> truthy (get_slot (publisher api_data)))
                  ''publisher'' (Str (str_of (get_slot (publisher api_data)))) ups;
          ups = put_if (\<not> truthy (note_publish book) \<and> truthy (get_slot (publishedDate api_data)))
                  ''publish'' (Str (str_of (get_slot (publishedDate api_data)))) ups;
          ups = put_if (\<not> truthy_int (note_total book) \<and> truthy_int (get_slot (pageCount api_data)))
                  ''total'' (Num (int_of (get_slot (pageCount api_data)))) ups;
          ups = put_if (\<not> truthy (note_isbn book) \<and> truthy (get_slot (isbn api_data)))
                  ''isbn'' (Str (str_of (get_slot (isbn api_data)))) ups;
          ups = put_if (\<not> truthy (note_cover book) \<and> truthy (get_slot (coverUrl api_data)))
                  ''cover'' (Str (str_of (get_slot (coverUrl api_data)))) ups;
          ups = put_if (note_category book = [] \<and> truthy_list (get_slot (categories api_data)))
                  ''category'' (StrList (list_of (get_slot (categories api_data)))) ups
      in ups)"

subsection \<open>Cover files\<close>

text \<open>
  The part of the outside world the cover code touches: the paths of the files on disk, and the
  URLs requested with \<^verbatim>\<open>session.get\<close> so far, oldest first.
\<close>

record world =
  files :: "string set"
  fetches :: "string list"

text \<open>
  \<^verbatim>\<open>download_cover(url, save_path)\<close> (the same in both scripts). \<open>net\<close> is the network: the body
  of the response, or \<open>None\<close> when the request raises; \<open>writable\<close> tells whether creating the
  directory and the file succeeds. Every exception is caught and gives \<^verbatim>\<open>False\<close>.
\<close>

definition download_cover ::
  "(string \<Rightarrow> string option) \<Rightarrow> (string \<Rightarrow> bool) \<Rightarrow> world \<Rightarrow> string \<Rightarrow> string \<Rightarrow> bool \<times> world" where
  "download_cover net writable w url save_path =
     (let w1 = w\<lparr>fetches := fetches w @ [url]\<rparr> in
      case net url of
        None \<Rightarrow> (False, w1)
      | Some content \<Rightarrow>
          if writable save_path then (True, w1\<lparr>files := insert save_path (files w1)\<rparr>)
          else (False, w1))"

text \<open>\<^verbatim>\<open>re.sub(r'[^\w\s-]', '', s)\<close> on code points below 256.\<close>

definition is_word :: "char \<Rightarrow> bool" where
  "is_word c = (let n = code_point c in
     (48 \<le> n \<and> n \<le> 57) \<or> (65 \<le> n \<and> n \<le> 90) \<or> n = 95 \<or> (97 \<le> n \<and> n \<le> 122) \<or>
     n = 170 \<or> n = 178 \<or> n = 179 \<or> n = 181 \<or> n = 185 \<or> n = 186 \<or> (188 \<le> n \<and> n \<le> 190) \<or>
     (192 \<le> n \<and> n \<le> 214) \<or> (216 \<le> n \<and> n \<le> 246) \<or> (248 \<le> n \<and> n \<le> 255))"

definition clean_name :: "string \<Rightarrow> string" where
  "clean_name s = filter (\<lambda>c. is_word c \<or> is_space c \<or> c = CHR ''-'') s"

text \<open>\<^verbatim>\<open>s.replace(ab, '')\<close> for a two-character \<^verbatim>\<open>ab\<close>.\<close>

fun remove_pair :: "char \<Rightarrow> char \<Rightarrow> string \<Rightarrow> string" where
  "remove_pair a b (x # y # s) =
     (if x = a \<and> y = b then remove_pair a b s else x # remove_pair a b (y # s))"
| "remove_pair a b s = s"

text \<open>
  \<^verbatim>\<open>covers_dir / cover_filename\<close> of pathlib, for a directory path without trailing slash and a
  relative name.
\<close>

definition path_join :: "string \<Rightarrow> string \<Rightarrow> string" where
  "path_join dir name = dir @ ''/'' @ name"

text \<open>Lines 484-498: the name of the cover file; \<^verbatim>\<open>re.sub\<close> raises TypeError on \<^verbatim>\<open>None\<close>.\<close>

definition cover_filename :: "BookNote \<Rightarrow> book \<Rightarrow> error + string" where
  "cover_filename book api_data =
     (case (if truthy (note_title book) then Val (str_of (note_title book))
            else (case title api_data of Absent \<Rightarrow> Val ''Unknown'' | t \<Rightarrow> t)) of
        Val t \<Rightarrow>
          (let title_clean = clean_name t;
               author_clean =
                 (case get_slot (authors api_data) of
                    Some (a # _) \<Rightarrow> clean_name a
                  | _ \<Rightarrow> (case note_author book of
                      a # _ \<Rightarrow> clean_name (remove_pair CHR '']'' CHR '']'' (remove_pair CHR ''['' CHR ''['' a))
                    | [] \<Rightarrow> []));
               date_clean = (case publishedDate api_data of Absent \<Rightarrow> Some [] | v \<Rightarrow> get_slot v)
           in Inr (if author_clean \<noteq> [] \<and> truthy date_clean
                   then author_clean @ '' - '' @ title_clean @ '' - '' @ str_of date_clean @ ''.jpg''
                   else if author_clean \<noteq> [] then author_clean @ '' - '' @ title_clean @ ''.jpg''
                   else title_clean @ ''.jpg''))
      | _ \<Rightarrow> Inl TypeError)"

text \<open>Lines 481-513: the local cover. The result is the new \<^verbatim>\<open>updates\<close> and the new world.\<close>

definition local_cover ::
  "string \<Rightarrow> (string \<Rightarrow> string option) \<Rightarrow> (string \<Rightarrow> bool) \<Rightarrow> world \<Rightarrow> BookNote \<Rightarrow> book \<Rightarrow> updates
     \<Rightarrow> error + (updates \<times> world)" where
  "local_cover covers_dir net writable w book api_data ups =
     (if truthy (get_slot (coverUrl api_data)) then
        (case cover_filename book api_data of
           Inl e \<Rightarrow> Inl e
         | Inr name \<Rightarrow>
             (let local_cover_path = path_join covers_dir name;
                  relative_cover_path = ''References/Attachments/Book Search Covers/'' @ name
              in if local_cover_path \<notin> files w then
                   (case download_cover net writable w (str_of (get_slot (coverUrl api_data))) local_cover_path of
                      (True, w') \<Rightarrow> Inr (AList.update ''localCover'' (Str relative_cover_path) ups, w')
                    | (False, w') \<Rightarrow> Inr (ups, w'))
                 else Inr (AList.update ''localCover'' (Str relative_cover_path) ups, w)))
      else Inr (ups, w))"

text \<open>Lines 450-513: the whole preparation of \<^verbatim>\<open>updates\<close> for one note and one candidate.\<close>

definition prepare_updates ::
  "string \<Rightarrow> (string \<Rightarrow> string option) \<Rightarrow> (string \<Rightarrow> bool) \<Rightarrow> world \<Rightarrow> BookNote \<Rightarrow> book
     \<Rightarrow> error + (updates \<times> world)" where
  "prepare_updates covers_dir net writable w book api_data =
     local_cover covers_dir net writable w book api_data (field_updates book api_data)"

text \<open>\<^verbatim>\<open>BookNote.get_missing_fields\<close> (lines 86-113); \<open>exists\<close> is \<^verbatim>\<open>Path.exists\<close>.\<close>

definition get_missing_fields :: "string set \<Rightarrow> BookNote \<Rightarrow> string list" where
  "get_missing_fields existing book =
     (if \<not> truthy (note_title book) then [''title''] else []) @
     (if note_author book = [] then [''author''] else []) @
     (if \<not> truthy (note_isbn book) then [''ISBN''] else []) @
     (if \<not> truthy (note_publisher book) then [''publisher''] else []) @
     (if \<not> truthy (note_publish book) then [''publish date''] else []) @
     (if \<not> truthy_int (note_total book) then [''page count''] else []) @
     (if \<not> truthy (note_cover book) then [''cover URL''] else []) @
     (if \<not> truthy (note_localCover book) then [''local cover path'']
      else if path_join ''/Users/armaangupta/Documents/GuppyBrain'' (str_of (note_localCover book))
                \<notin> existing
           then [''local cover file (path exists but file missing)''] else [])"

subsection \<open>The note after the updates are saved\<close>

text \<open>\<^verbatim>\<open>BookNote._extract_value\<close> on a string and \<^verbatim>\<open>BookNote._extract_list\<close> on a list of strings.\<close>

definition extract_value :: "string \<Rightarrow> string option" where
  "extract_value v =
     (if v \<noteq> [] \<and> strip v \<noteq> [] \<and> strip v \<noteq> [CHR 0x27, CHR 0x27] then Some v else None)"

definition strip_char :: "char \<Rightarrow> string \<Rightarrow> string" where
  "strip_char c s = rev (dropWhile (\<lambda>d. d = c) (rev (dropWhile (\<lambda>d. d = c) s)))"

definition extract_list :: "string list \<Rightarrow> string list" where
  "extract_list vs =
     map (\<lambda>v. strip_char (CHR 0x27) (strip_char (CHR 0x22) (strip v))) (filter (\<lambda>v. v \<noteq> []) vs)"

text \<open>
  What \<^verbatim>\<open>BookNote.from_file\<close> reads after \<^verbatim>\<open>update_and_save(updates)\<close> has written the
  file, for a YAML library whose \<^verbatim>\<open>safe_load\<close> returns what \<^verbatim>\<open>dump\<close> was given, and for the
  updates that the cleaner builds: lists of strings under \<^verbatim>\<open>author\<close> and \<^verbatim>\<open>category\<close> (stored as
  they are), an integer under \<^verbatim>\<open>total\<close>, a string under every other key.
\<close>

definition apply_update :: "BookNote \<Rightarrow> string \<times> pyval \<Rightarrow> BookNote" where
  "apply_update book kv = (case kv of
       (key, Str s) \<Rightarrow>
         (if key = ''title'' then book\<lparr>note_title := extract_value s\<rparr>
          else if key = ''subtitle'' then book\<lparr>note_subtitle := extract_value s\<rparr>
          else if key = ''publisher'' then book\<lparr>note_publisher := extract_value s\<rparr>
          else if key = ''publish'' then book\<lparr>note_publish := extract_value s\<rparr>
          else if key = ''isbn'' then book\<lparr>note_isbn := extract_value s\<rparr>
          else if key = ''cover'' then book\<lparr>note_cover := extract_value s\<rparr>
          else if key = ''localCover'' then book\<lparr>note_localCover := extract_value s\<rparr>
          else book)
     | (key, StrList vs) \<Rightarrow>
         (if key = ''author'' then book\<lparr>note_author := extract_list vs\<rparr>
          else if key = ''category'' then book\<lparr>note_category := extract_list vs\<rparr>
          else book)
     | (key, Num n) \<Rightarrow> (if key = ''total'' then book\<lparr>note_total := Some n\<rparr> else book))"

definition backfill_applied :: "BookNote \<Rightarrow> updates \<Rightarrow> BookNote" where
  "backfill_applied book ups = foldl apply_update book ups"

section \<open>The cover in create-book-notes.py\<close>

text \<open>
  \<^verbatim>\<open>BookNoteCreator.create_book_note\<close>, lines 396-423: the file names and the cover image. The
  result is \<^verbatim>\<open>local_cover_filename\<close> and the new world; an exception (caught at the end of the
  method, which then returns \<^verbatim>\<open>False\<close>) is \<open>Inl\<close>.
\<close>

definition create_book_note_cover ::
  "string \<Rightarrow> (string \<Rightarrow> string option) \<Rightarrow> (string \<Rightarrow> bool) \<Rightarrow> world \<Rightarrow> book
     \<Rightarrow> error + (string \<times> world)" where
  "create_book_note_cover covers_dir net writable w book =
     (case title book of
        Absent \<Rightarrow> Inl KeyError
      | PyNone \<Rightarrow> Inl TypeError
      | Val t \<Rightarrow>
          (case (case authors book of
                   Absent \<Rightarrow> Inr ''Unknown''
                 | PyNone \<Rightarrow> Inl TypeError
                 | Val [] \<Rightarrow> Inl IndexError
                 | Val (a # _) \<Rightarrow> Inr a) of
             Inl e \<Rightarrow> Inl e
           | Inr a \<Rightarrow>
               (let title_clean = clean_name t;
                    author_clean = clean_name a;
                    year = (case publishedDate book of
                              Val pub_date \<Rightarrow>
                                (if pub_date \<noteq> [] then
                                   (case find_year pub_date of
                                      Some y \<Rightarrow> '' - '' @ y
                                    | None \<Rightarrow> [])
                                 else [])
                            | _ \<Rightarrow> [])
                in if truthy (get_slot (coverUrl book)) then
                     (let cover_filename = author_clean @ '' - '' @ title_clean @ year @ ''.jpg'';
                          local_cover_path = path_join covers_dir cover_filename;
                          local_cover_filename =
                            ''References/Attachments/Book Search Covers/'' @ cover_filename
                      in case download_cover net writable w (str_of (get_slot (coverUrl book)))
                                local_cover_path of
                           (True, w') \<Rightarrow> Inr (local_cover_filename, w')
                         | (False, w') \<Rightarrow> Inr ([], w'))
                   else Inr ([], w))))"

section \<open>Example notes, candidates and worlds\<close>

definition the_covers_dir :: string where
  "the_covers_dir =
     ''/Users/armaangupta/Documents/GuppyBrain/References/Attachments/Book Search Covers''"

text \<open>A candidate with a cover URL and no publisher.\<close>

definition dune_with_cover :: book where
  "dune_with_cover = dune_b\<lparr>coverUrl := Val ''http://books.example/dune.jpg''\<rparr>"

text \<open>A note that lacks the publisher only; its local cover is another file, which exists.\<close>

definition note_old_cover :: BookNote where
  "note_old_cover = \<lparr>note_title = Some ''Dune'', note_subtitle = Some ''A novel'',
     note_author = [''[[Frank Herbert]]''], note_category = [''Fiction''],
     note_publisher = None, note_publish = Some ''1965'', note_total = Some 412,
     note_isbn = Some ''9780441013593'', note_cover = Some ''http://books.example/dune.jpg'',
     note_localCover = Some ''References/Attachments/Book Search Covers/my-dune.jpg''\<rparr>"

definition world_old_cover :: world where
  "world_old_cover = \<lparr>files = {the_covers_dir @ ''/my-dune.jpg''}, fetches = []\<rparr>"

text \<open>The same note without local cover, and a world without cover files.\<close>

definition note_no_cover :: BookNote where
  "note_no_cover = note_old_cover\<lparr>note_localCover := None\<rparr>"

definition world_empty :: world where
  "world_empty = \<lparr>files = {}, fetches = []\<rparr>"

text \<open>A world where the cover file of the candidate is on disk already.\<close>

definition world_has_cover :: world where
  "world_has_cover = \<lparr>files = {the_covers_dir @ ''/Frank Herbert - Dune - 1965.jpg''}, fetches = []\<rparr>"

text \<open>A network that answers every request, and a disk that accepts every write.\<close>

definition net_ok :: "string \<Rightarrow> string option" where
  "net_ok url = Some ''JPEG''"

definition disk_ok :: "string \<Rightarrow> bool" where
  "disk_ok path = True"

section \<open>Collecting the raw results (create-book-notes.py)\<close>

text \<open>
  The adapters are parameters: \<open>google\<close> is \<^verbatim>\<open>_search_google_books\<close>, \<open>google_multiple\<close> is
  \<^verbatim>\<open>_search_google_books_multiple\<close>, \<open>open_library\<close> is \<^verbatim>\<open>_search_open_library\<close>; each catches
  its own exceptions and answers with the same result for the same arguments during one search.

  \<^verbatim>\<open>search_multiple_sources\<close> (lines 25-55): the two futures are named by their source;
  \<open>completion\<close> is the order in which \<^verbatim>\<open>as_completed\<close> yields them.
\<close>

definition search_multiple_sources ::
  "(string \<Rightarrow> book option) \<Rightarrow> (string \<Rightarrow> string \<Rightarrow> book option) \<Rightarrow> string list \<Rightarrow> string \<Rightarrow> string
     \<Rightarrow> book list" where
  "search_multiple_sources google open_library completion q_title author =
     (let future_to_source =
            [(''google'', google (strip (q_title @ '' '' @ author))),
             (''openlibrary'', open_library q_title author)]
      in foldl (\<lambda>results src.
                  case map_of future_to_source src of
                    Some (Some result) \<Rightarrow> results @ [result\<lparr>source := Val src\<rparr>]
                  | _ \<Rightarrow> results)
           [] completion)"

text \<open>\<^verbatim>\<open>search_books_by_title_author\<close>, lines 61-85: the sequential loop over the search terms.\<close>

definition search_terms :: "string \<Rightarrow> string \<Rightarrow> string list" where
  "search_terms q_title author =
     [strip (q_title @ '' '' @ author),
      (if author \<noteq> [] then ''intitle:'' @ [CHR 0x22] @ q_title @ [CHR 0x22] @ '' inauthor:''
                             @ [CHR 0x22] @ author @ [CHR 0x22]
       else ''intitle:'' @ [CHR 0x22] @ q_title @ [CHR 0x22]),
      q_title]"

definition collect_results ::
  "(string \<Rightarrow> book list) \<Rightarrow> (string \<Rightarrow> string \<Rightarrow> book option) \<Rightarrow> string \<Rightarrow> string \<Rightarrow> book list" where
  "collect_results google_multiple open_library q_title author =
     foldl (\<lambda>all_results search_term.
              (let all_results = all_results @ google_multiple search_term
               in case open_library q_title author of
                    Some ol_result \<Rightarrow> all_results @ [ol_result\<lparr>source := Val ''openlibrary''\<rparr>]
                  | None \<Rightarrow> all_results))
       [] (search_terms q_title author)"

text \<open>The whole of \<^verbatim>\<open>search_books_by_title_author\<close>.\<close>

definition search_books_by_title_author ::
  "(string \<Rightarrow> book list) \<Rightarrow> (string \<Rightarrow> string \<Rightarrow> book option) \<Rightarrow> string \<Rightarrow> string
     \<Rightarrow> error + book list" where
  "search_books_by_title_author google_multiple open_library q_title author =
     (case deduplicate (collect_results google_multiple open_library q_title author) of
        Inl e \<Rightarrow> Inl e
      | Inr unique_results \<Rightarrow> rank q_title author unique_results)"

text \<open>Adapters that answer every query with the same record.\<close>

definition google_answers :: "string \<Rightarrow> book option" where
  "google_answers query = Some dune_a"

definition open_library_answers :: "string \<Rightarrow> string \<Rightarrow> book option" where
  "open_library_answers t a = Some dune_b"

definition google_multiple_answers :: "string \<Rightarrow> book list" where
  "google_multiple_answers query = [dune_a\<lparr>source := Val ''google''\<rparr>]"

section \<open>Saving a note (BookNote.update_and_save)\<close>

text \<open>
  The objects of the YAML library. \<open>YNull\<close> is \<^verbatim>\<open>None\<close>; in \<^verbatim>\<open>updates\<close> a value is such an
  object as well.
\<close>

datatype yaml = YNull | YBool bool | YInt int | YStr string | YList "yaml list"
  | YDict "(string \<times> yaml) list"

text \<open>
  The library functions are parameters: \<^verbatim>\<open>yaml.safe_load\<close>, \<^verbatim>\<open>yaml.dump\<close> (either may raise),
  and the formatting of a value inside an f-string.
\<close>

record pylib =
  safe_load :: "string \<Rightarrow> error + yaml"
  dump :: "yaml \<Rightarrow> error + string"
  format :: "yaml \<Rightarrow> string"

definition yaml_truthy :: "yaml \<Rightarrow> bool" where
  "yaml_truthy y = (case y of
       YNull \<Rightarrow> False | YBool b \<Rightarrow> b | YInt n \<Rightarrow> n \<noteq> 0 | YStr s \<Rightarrow> s \<noteq> []
     | YList l \<Rightarrow> l \<noteq> [] | YDict d \<Rightarrow> d \<noteq> [])"

definition is_list :: "yaml \<Rightarrow> bool" where
  "is_list y = (case y of YList _ \<Rightarrow> True | _ \<Rightarrow> False)"

text \<open>\<^verbatim>\<open>s.index(sub)\<close>: the least position where \<open>sub\<close> starts, or ValueError (\<open>None\<close>).\<close>

fun index_of :: "string \<Rightarrow> string \<Rightarrow> nat option" where
  "index_of sub [] = (if sub = [] then Some 0 else None)"
| "index_of sub (c # cs) =
     (if prefix sub (c # cs) then Some 0 else map_option Suc (index_of sub cs))"

text \<open>\<^verbatim>\<open>frontmatter[key] = value\<close>: only a dictionary accepts it.\<close>

definition set_item :: "yaml \<Rightarrow> string \<Rightarrow> yaml \<Rightarrow> error + yaml" where
  "set_item frontmatter key v = (case frontmatter of
       YDict d \<Rightarrow> Inr (YDict (AList.update key v d))
     | _ \<Rightarrow> Inl TypeError)"

text \<open>The loop over \<^verbatim>\<open>updates.items()\<close> (lines 131-138).\<close>

fun apply_updates :: "pylib \<Rightarrow> yaml \<Rightarrow> (string \<times> yaml) list \<Rightarrow> error + yaml" where
  "apply_updates lib frontmatter [] = Inr frontmatter"
| "apply_updates lib frontmatter ((key, v) # rest) =
     (if v \<noteq> YNull then
        (case set_item frontmatter key
                (if key = ''author'' \<and> \<not> is_list v then YList [YStr (''[['' @ format lib v @ '']]'')]
                 else if key = ''category'' \<and> \<not> is_list v then YList [v]
                 else v) of
           Inl e \<Rightarrow> Inl e
         | Inr frontmatter' \<Rightarrow> apply_updates lib frontmatter' rest)
      else apply_updates lib frontmatter rest)"

text \<open>
  Lines 121-144, from the content that was read to \<^verbatim>\<open>new_content\<close>: \<open>Inl\<close> is an exception,
  \<open>Inr None\<close> the early \<^verbatim>\<open>return False\<close>.
\<close>

definition new_content :: "pylib \<Rightarrow> string \<Rightarrow> (string \<times> yaml) list \<Rightarrow> error + string option" where
  "new_content lib content updates =
     (if \<not> prefix ''---'' content then Inr None
      else (case index_of ''---'' (drop 3 content) of
          None \<Rightarrow> Inl ValueError
        | Some i \<Rightarrow>
            (let end_index = i + 3;
                 frontmatter_text = take (end_index - 3) (drop 3 content);
                 body = drop (end_index + 3) content
             in case safe_load lib frontmatter_text of
                  Inl e \<Rightarrow> Inl e
                | Inr loaded \<Rightarrow>
                    (case apply_updates lib (if yaml_truthy loaded then loaded else YDict []) updates of
                       Inl e \<Rightarrow> Inl e
                     | Inr frontmatter \<Rightarrow>
                         (case dump lib frontmatter of
                            Inl e \<Rightarrow> Inl e
                          | Inr dumped \<Rightarrow>
                              Inr (Some (''---'' @ [CHR 0x0A] @ dumped @ ''---'' @ body)))))))"

text \<open>
  What happens at \<^verbatim>\<open>open(self.filepath, 'w')\<close> and \<^verbatim>\<open>f.write(new_content)\<close>: the file is written, or
  opening raises, or writing raises after the file was truncated and holds some part.
\<close>

datatype write_outcome = Written | OpenFailed | WriteFailed string

text \<open>
  \<^verbatim>\<open>update_and_save\<close>: the files are a map from path to content; a missing file raises at the
  first \<^verbatim>\<open>open\<close>. Every exception is caught and gives \<^verbatim>\<open>False\<close>.
\<close>

definition update_and_save ::
  "pylib \<Rightarrow> write_outcome \<Rightarrow> (string \<rightharpoonup> string) \<Rightarrow> string \<Rightarrow> (string \<times> yaml) list
     \<Rightarrow> bool \<times> (string \<rightharpoonup> string)" where
  "update_and_save lib disk fs filepath updates =
     (case fs filepath of
        None \<Rightarrow> (False, fs)
      | Some content \<Rightarrow>
          (case new_content lib content updates of
             Inl e \<Rightarrow> (False, fs)
           | Inr None \<Rightarrow> (False, fs)
           | Inr (Some text) \<Rightarrow>
               (case disk of
                  Written \<Rightarrow> (True, fs(filepath \<mapsto> text))
                | OpenFailed \<Rightarrow> (False, fs)
                | WriteFailed part \<Rightarrow> (False, fs(filepath \<mapsto> part)))))"

text \<open>
  A stand-in for the YAML library that reads a list of \<^verbatim>\<open>key: value\<close> lines as strings and
  refuses a line without colon; it serves to run the examples.
\<close>

fun load_lines :: "string list \<Rightarrow> error + (string \<times> yaml) list" where
  "load_lines [] = Inr []"
| "load_lines (l # ls) =
     (if l = [] then load_lines ls
      else if CHR '':'' \<notin> set l then Inl YAMLError
      else (case load_lines ls of
          Inl e \<Rightarrow> Inl e
        | Inr d \<Rightarrow> Inr ((takeWhile (\<lambda>c. c \<noteq> CHR '':'') l,
                          YStr (strip (drop 1 (dropWhile (\<lambda>c. c \<noteq> CHR '':'') l)))) # d)))"

fun split_lines :: "string \<Rightarrow> string list" where
  "split_lines [] = [[]]"
| "split_lines (c # cs) =
     (if c = CHR 0x0A then [] # split_lines cs
      else (case split_lines cs of l # ls \<Rightarrow> (c # l) # ls | [] \<Rightarrow> [[c]]))"

definition show_yaml :: "yaml \<Rightarrow> string" where
  "show_yaml y = (case y of YStr s \<Rightarrow> s | _ \<Rightarrow> ''?'')"

definition example_lib :: pylib where
  "example_lib = \<lparr>
     safe_load = (\<lambda>s. case load_lines (split_lines s) of
                         Inl e \<Rightarrow> Inl e
                       | Inr d \<Rightarrow> Inr (if d = [] then YNull else YDict d)),
     dump = (\<lambda>y. case y of
                    YDict d \<Rightarrow> Inr (concat (map (\<lambda>(k, v). k @ '': '' @ show_yaml v @ [CHR 0x0A]) d))
                  | _ \<Rightarrow> Inr (show_yaml y @ [CHR 0x0A])),
     format = show_yaml\<rparr>"

definition note_path :: string where
  "note_path = ''Books/Frank Herbert - Dune - 1965.md''"

text \<open>Note files: one without frontmatter, one with a line that is not YAML, one well formed.\<close>

definition plain_note :: string where
  "plain_note = ''# Dune'' @ [CHR 0x0A] @ ''Body''"

definition broken_note :: string where
  "broken_note = ''---'' @ [CHR 0x0A] @ ''title Dune'' @ [CHR 0x0A] @ ''---'' @ [CHR 0x0A] @ ''Body''"

definition unclosed_note :: string where
  "unclosed_note = ''---'' @ [CHR 0x0A] @ ''title: Dune'' @ [CHR 0x0A] @ ''Body''"

definition good_note :: string where
  "good_note = ''---'' @ [CHR 0x0A] @ ''title: Dune'' @ [CHR 0x0A] @ ''---'' @ [CHR 0x0A] @ ''Body''"

definition publisher_update :: "(string \<times> yaml) list" where
  "publisher_update = [(''publisher'', YStr ''Ace'')]"

section \<open>Properties of the deduplication\<close>

lemma dedup_loop_keys_ok:
  "dedup_loop seen acc xs = Inr us \<Longrightarrow> r \<in> set xs \<Longrightarrow> \<exists>k. dedup_key r = Inr k"
  by (induction xs arbitrary: seen acc) (auto split: sum.splits if_splits)

lemma dedup_loop_subset:
  "dedup_loop seen acc xs = Inr us \<Longrightarrow> set us \<subseteq> set acc \<union> set xs"
proof (induction xs arbitrary: seen acc)
  case Nil
  then show ?case by simp
next
  case (Cons x xs)
  then show ?case by (fastforce split: sum.splits if_splits)
qed

text \<open>Of the candidates with a given non-empty key, the loop keeps the first and only the first.\<close>

lemma dedup_loop_filter:
  "dedup_loop seen acc xs = Inr us \<Longrightarrow> k \<noteq> [] \<Longrightarrow>
   filter (\<lambda>r. dedup_key r = Inr k) us =
     filter (\<lambda>r. dedup_key r = Inr k) acc @
       (if k \<in> seen then [] else take 1 (filter (\<lambda>r. dedup_key r = Inr k) xs))"
proof (induction xs arbitrary: seen acc)
  case Nil
  then show ?case by simp
next
  case (Cons x xs)
  obtain kx where kx: "dedup_key x = Inr kx"
    using Cons.prems(1) by (auto split: sum.splits)
  show ?case
  proof (cases "kx \<noteq> [] \<and> kx \<notin> seen")
    case True
    with Cons.prems kx have "dedup_loop (insert kx seen) (acc @ [x]) xs = Inr us" by simp
    from Cons.IH [OF this Cons.prems(2)] kx True show ?thesis by auto
  next
    case False
    with Cons.prems kx have "dedup_loop seen acc xs = Inr us" by auto
    from Cons.IH [OF this Cons.prems(2)] kx False Cons.prems(2) show ?thesis by auto
  qed
qed

text \<open>
  First-seen-wins: in a deduplication that raises nothing, of the candidates with a given
  non-empty key the result holds exactly the first one.
\<close>

lemma dedup_first_seen:
  assumes run: "deduplicate (pre @ a # rest) = Inr us"
    and key: "dedup_key a = Inr k" and ne: "k \<noteq> []"
    and first: "\<forall>r\<in>set pre. dedup_key r \<noteq> Inr k"
  shows "filter (\<lambda>r. dedup_key r = Inr k) us = [a]"
proof -
  from run have loop: "dedup_loop {} [] (pre @ a # rest) = Inr us"
    by (simp add: deduplicate_def)
  have pre: "filter (\<lambda>r. dedup_key r = Inr k) pre = []"
    using first by (simp add: filter_empty_conv)
  show ?thesis
    using dedup_loop_filter [OF loop ne] pre key by simp
qed

text \<open>
  C1 at its own example, the two adapter results of the Dune scenario: the ISBNs
  \<^verbatim>\<open>978-0-441-01359-3\<close> and \<^verbatim>\<open>9780441013593\<close> differ in hyphens only, yet the two candidates get
  different keys, since only commas and spaces are removed, and the deduplication retains
  both instead of the first-seen one alone.
\<close>

theorem hyphenated_isbn_not_collapsed:
  "dedup_key dune_a = Inr ''978-0-441-01359-3'' \<and> dedup_key dune_b = Inr ''9780441013593'' \<and>
   dedup_key dune_a \<noteq> dedup_key dune_b \<and> deduplicate [dune_a, dune_b] = Inr [dune_a, dune_b]"
  by code_simp

text \<open>
  C2 at a candidate without ISBN as the Google adapter builds it (\<^verbatim>\<open>'isbn': None\<close>,
  \<^verbatim>\<open>'authors': []\<close>): the key computation raises AttributeError, and with the \<^verbatim>\<open>isbn\<close> key
  missing altogether the empty authors list raises IndexError; the exception leaves the
  deduplication.
\<close>

theorem dedup_key_raises:
  "dedup_key title_only = Inl AttributeError \<and>
   dedup_key (title_only\<lparr>isbn := Absent\<rparr>) = Inl IndexError \<and>
   dedup_key (title_only\<lparr>isbn := Val []\<rparr>) = Inl IndexError \<and>
   deduplicate [title_only] = Inl AttributeError"
  by code_simp

section \<open>Properties of the ISBN extraction\<close>

lemma scan_identifiers:
  "foldl isbn_step (None, None) ids =
     (case rev (filter (\<lambda>i. fst i = ''ISBN_10'') ids) of [] \<Rightarrow> None | i # _ \<Rightarrow> Some (snd i),
      case rev (filter (\<lambda>i. fst i = ''ISBN_13'') ids) of [] \<Rightarrow> None | i # _ \<Rightarrow> Some (snd i))"
proof (induction ids rule: rev_induct)
  case Nil
  then show ?case by simp
next
  case (snoc x xs)
  then show ?case by (simp add: isbn_step_def)
qed

text \<open>
  For a volume with at most one identifier of a type, the loop holds a true value for the type
  exactly when the volume lists a non-empty identifier of it, and then holds that one.
\<close>

lemma scanned_listed:
  assumes "length (filter (\<lambda>i. fst i = t) ids) \<le> 1"
  shows "truthy (case rev (filter (\<lambda>i. fst i = t) ids) of [] \<Rightarrow> None | i # _ \<Rightarrow> Some (snd i)) =
           (listed t ids \<noteq> [])"
    and "listed t ids = [a] \<Longrightarrow>
           str_of (case rev (filter (\<lambda>i. fst i = t) ids) of [] \<Rightarrow> None | i # _ \<Rightarrow> Some (snd i)) = a"
proof -
  from assms consider "filter (\<lambda>i. fst i = t) ids = []"
    | i where "filter (\<lambda>i. fst i = t) ids = [i]"
    by (cases "filter (\<lambda>i. fst i = t) ids"; cases "tl (filter (\<lambda>i. fst i = t) ids)") auto
  then have "truthy (case rev (filter (\<lambda>i. fst i = t) ids) of [] \<Rightarrow> None | i # _ \<Rightarrow> Some (snd i)) =
           (listed t ids \<noteq> []) \<and>
     (listed t ids = [a] \<longrightarrow>
           str_of (case rev (filter (\<lambda>i. fst i = t) ids) of [] \<Rightarrow> None | i # _ \<Rightarrow> Some (snd i)) = a)"
    by cases (auto simp: listed_def truthy_def str_of_def)
  then show "truthy (case rev (filter (\<lambda>i. fst i = t) ids) of [] \<Rightarrow> None | i # _ \<Rightarrow> Some (snd i)) =
           (listed t ids \<noteq> [])"
    and "listed t ids = [a] \<Longrightarrow>
           str_of (case rev (filter (\<lambda>i. fst i = t) ids) of [] \<Rightarrow> None | i # _ \<Rightarrow> Some (snd i)) = a"
    by blast+
qed

text \<open>
  The lookup by ISBN stores the ISBN it was asked for, whatever the edition document lists.
\<close>

lemma fetch_by_isbn_stores_query:
  "fetch_open_library_isbn get_edition get_author_name q = Some result \<Longrightarrow> isbn result = Val q"
  by (auto simp: fetch_open_library_isbn_def split: option.splits slot.splits)

lemma fetch_by_isbn_example:
  "ed_isbn_10 dune_edition = Val [''0441013593''] \<and>
   ed_isbn_13 dune_edition = Val [''9780441013593''] \<and>
   map_option isbn (fetch_open_library_isbn edition_answers author_answers ''9780441013593'') =
     Some (Val ''9780441013593'') \<and>
   map_option coverUrl (fetch_open_library_isbn edition_answers author_answers ''9780441013593'') =
     Some (Val ''https://covers.openlibrary.org/b/id/42-L.jpg'')"
  by code_simp

text \<open>
  C3, as stated, at a volume and at a document with both ISBNs: the field starts with the
  ISBN-10, not with the ISBN-13.
\<close>

theorem isbn_thirteen_first_counterexample:
  "google_isbn dune_identifiers = Val ''0441013593, 9780441013593'' \<and>
   google_isbn dune_identifiers \<noteq> Val ''9780441013593, 0441013593'' \<and>
   open_library_isbn dune_ol_isbns = Val ''0441013593, 9780441013593'' \<and>
   open_library_isbn dune_ol_isbns \<noteq> Val ''9780441013593, 0441013593''"
  by code_simp

text \<open>
  C3, amended, for the results of the Google adapter and of the Open Library title and author
  search. A Google volume with at most one identifier of each type: when it lists an ISBN-10
  and an ISBN-13, the \<^verbatim>\<open>isbn\<close> field is the ISBN-10, a comma and a space, the ISBN-13; when it
  lists only one of them, the field is that one. An Open Library document: when its \<^verbatim>\<open>isbn\<close>
  list holds ISBNs of both lengths, the field is the first ISBN-10, a comma and a space, the
  first ISBN-13; when it holds ISBNs of one length only, the field is the first of them.
\<close>

theorem isbn_ten_first:
  assumes "length (filter (\<lambda>i. fst i = ''ISBN_10'') ids) \<le> 1"
    and "length (filter (\<lambda>i. fst i = ''ISBN_13'') ids) \<le> 1"
  shows
  "(listed ''ISBN_10'' ids = [a] \<and> listed ''ISBN_13'' ids = [b] \<longrightarrow>
      google_isbn ids = Val (a @ '', '' @ b)) \<and>
   (listed ''ISBN_10'' ids = [] \<and> listed ''ISBN_13'' ids = [b] \<longrightarrow>
      google_isbn ids = Val b) \<and>
   (listed ''ISBN_10'' ids = [a] \<and> listed ''ISBN_13'' ids = [] \<longrightarrow>
      google_isbn ids = Val a) \<and>
   (listed_ol 10 v = c # cs \<and> listed_ol 13 v = d # ds \<longrightarrow>
      open_library_isbn v = Val (c @ '', '' @ d)) \<and>
   (listed_ol 10 v = [] \<and> listed_ol 13 v = d # ds \<longrightarrow> open_library_isbn v = Val d) \<and>
   (listed_ol 10 v = c # cs \<and> listed_ol 13 v = [] \<longrightarrow> open_library_isbn v = Val c)"
proof -
  note s10 = scanned_listed [OF assms(1)] and s13 = scanned_listed [OF assms(2)]
  have g: "google_isbn ids = join_isbns
     (case rev (filter (\<lambda>i. fst i = ''ISBN_10'') ids) of [] \<Rightarrow> None | i # _ \<Rightarrow> Some (snd i))
     (case rev (filter (\<lambda>i. fst i = ''ISBN_13'') ids) of [] \<Rightarrow> None | i # _ \<Rightarrow> Some (snd i))"
    by (simp add: google_isbn_def scan_identifiers)
  have 1: "listed ''ISBN_10'' ids = [a] \<and> listed ''ISBN_13'' ids = [b] \<longrightarrow>
      google_isbn ids = Val (a @ '', '' @ b)"
    by (simp add: g join_isbns_def s10 s13)
  have 2: "listed ''ISBN_10'' ids = [] \<and> listed ''ISBN_13'' ids = [b] \<longrightarrow>
      google_isbn ids = Val b"
    by (simp add: g join_isbns_def s10 s13)
  have 3: "listed ''ISBN_10'' ids = [a] \<and> listed ''ISBN_13'' ids = [] \<longrightarrow>
      google_isbn ids = Val a"
    by (simp add: g join_isbns_def s10 s13)
  have 4: "listed_ol 10 v = c # cs \<and> listed_ol 13 v = d # ds \<longrightarrow>
      open_library_isbn v = Val (c @ '', '' @ d)"
    by (auto simp: listed_ol_def open_library_isbn_def isbns_of_length_def remove_char_def
        split: slot.splits list.splits)
  have 5: "listed_ol 10 v = [] \<and> listed_ol 13 v = d # ds \<longrightarrow> open_library_isbn v = Val d"
    by (auto simp: listed_ol_def open_library_isbn_def isbns_of_length_def remove_char_def
        split: slot.splits list.splits)
  have 6: "listed_ol 10 v = c # cs \<and> listed_ol 13 v = [] \<longrightarrow> open_library_isbn v = Val c"
    by (auto simp: listed_ol_def open_library_isbn_def isbns_of_length_def remove_char_def
        split: slot.splits list.splits)
  from 1 2 3 4 5 6 show ?thesis by blast
qed

theorem isbn_ten_first_witness:
  "length (filter (\<lambda>i. fst i = ''ISBN_10'') dune_identifiers) \<le> 1 \<and>
   length (filter (\<lambda>i. fst i = ''ISBN_13'') dune_identifiers) \<le> 1 \<and>
   listed ''ISBN_10'' dune_identifiers = [''0441013593''] \<and>
   listed ''ISBN_13'' dune_identifiers = [''9780441013593''] \<and>
   google_isbn dune_identifiers = Val (''0441013593'' @ '', '' @ ''9780441013593'') \<and>
   listed ''ISBN_10'' (tl dune_identifiers) = [] \<and>
   listed ''ISBN_13'' (tl dune_identifiers) = [''9780441013593''] \<and>
   google_isbn (tl dune_identifiers) = Val ''9780441013593'' \<and>
   listed ''ISBN_10'' (butlast dune_identifiers) = [''0441013593''] \<and>
   listed ''ISBN_13'' (butlast dune_identifiers) = [] \<and>
   google_isbn (butlast dune_identifiers) = Val ''0441013593'' \<and>
   listed_ol 10 dune_ol_isbns = [''0441013593''] \<and>
   listed_ol 13 dune_ol_isbns = [''9780441013593''] \<and>
   open_library_isbn dune_ol_isbns = Val (''0441013593'' @ '', '' @ ''9780441013593'') \<and>
   listed_ol 10 (Val [''9780441013593'']) = [] \<and>
   listed_ol 13 (Val [''9780441013593'']) = [''9780441013593''] \<and>
   open_library_isbn (Val [''9780441013593'']) = Val ''9780441013593'' \<and>
   listed_ol 10 (Val [''0-441-01359-3'']) = [''0-441-01359-3''] \<and>
   listed_ol 13 (Val [''0-441-01359-3'']) = [] \<and>
   open_library_isbn (Val [''0-441-01359-3'']) = Val ''0-441-01359-3''"
proof -
  have l: "length (filter (\<lambda>i. fst i = ''ISBN_10'') dune_identifiers) \<le> 1"
    "length (filter (\<lambda>i. fst i = ''ISBN_13'') dune_identifiers) \<le> 1"
    "length (filter (\<lambda>i. fst i = ''ISBN_10'') (tl dune_identifiers)) \<le> 1"
    "length (filter (\<lambda>i. fst i = ''ISBN_13'') (tl dune_identifiers)) \<le> 1"
    "length (filter (\<lambda>i. fst i = ''ISBN_10'') (butlast dune_identifiers)) \<le> 1"
    "length (filter (\<lambda>i. fst i = ''ISBN_13'') (butlast dune_identifiers)) \<le> 1"
    by code_simp+
  have a: "listed ''ISBN_10'' dune_identifiers = [''0441013593'']"
    "listed ''ISBN_13'' dune_identifiers = [''9780441013593'']"
    "listed ''ISBN_10'' (tl dune_identifiers) = []"
    "listed ''ISBN_13'' (tl dune_identifiers) = [''9780441013593'']"
    "listed ''ISBN_10'' (butlast dune_identifiers) = [''0441013593'']"
    "listed ''ISBN_13'' (butlast dune_identifiers) = []"
    by code_simp+
  have b: "listed_ol 10 dune_ol_isbns = [''0441013593'']"
    "listed_ol 13 dune_ol_isbns = [''9780441013593'']"
    "listed_ol 10 (Val [''9780441013593'']) = []"
    "listed_ol 13 (Val [''9780441013593'']) = [''9780441013593'']"
    "listed_ol 10 (Val [''0-441-01359-3'']) = [''0-441-01359-3'']"
    "listed_ol 13 (Val [''0-441-01359-3'']) = []"
    by code_simp+
  note t = isbn_ten_first
  from l a b
    t [OF l(1) l(2), of "''0441013593''" "''9780441013593''" dune_ol_isbns
        "''0441013593''" "[]" "''9780441013593''" "[]"]
    t [OF l(3) l(4), of "''0441013593''" "''9780441013593''" "Val [''9780441013593'']"
        "''0441013593''" "[]" "''9780441013593''" "[]"]
    t [OF l(5) l(6), of "''0441013593''" "''9780441013593''" "Val [''0-441-01359-3'']"
        "''0-441-01359-3''" "[]" "''9780441013593''" "[]"]
  show ?thesis by simp
qed

section \<open>Properties of the ranking\<close>

lemma find_map_index: "find P (map f xs) = map_option f (find (\<lambda>x. P (f x)) xs)"
  by (induction xs) auto

lemma four_digits_window:
  "four_digits (take 4 s) = (4 \<le> length s \<and> list_all is_digit (take 4 s))"
  by (auto simp: four_digits_def list_all_iff)

lemma find_year_index:
  "find_year d = map_option (\<lambda>i. take 4 (drop i d))
     (find (\<lambda>i. four_digits (take 4 (drop i d))) [0..<length d])"
proof (induction d)
  case Nil
  then show ?case by simp
next
  case (Cons c cs)
  have upt: "[0..<length (c # cs)] = 0 # map Suc [0..<length cs]"
    by (simp add: upt_conv_Cons map_Suc_upt del: upt_Suc)
  show ?case
  proof (cases "four_digits (take 4 (c # cs))")
    case True
    then have "find_year (c # cs) = Some (take 4 (c # cs))"
      by (simp only: find_year.simps four_digits_window [symmetric] if_True)
    with True show ?thesis
      unfolding upt by (simp del: take_Suc_Cons)
  next
    case False
    then have "find_year (c # cs) = find_year cs"
      by (simp only: find_year.simps four_digits_window [symmetric] if_False)
    with False Cons.IH show ?thesis
      unfolding upt by (simp add: find_map_index option.map_comp comp_def del: take_Suc_Cons)
  qed
qed

lemma int_of_four_digits:
  assumes "length w = 4"
  shows "int_of_digits w = 1000 * digit_value (w ! 0) + 100 * digit_value (w ! 1)
     + 10 * digit_value (w ! 2) + digit_value (w ! 3)"
proof -
  from assms obtain a b c d where "w = [a, b, c, d]"
    by (cases w; cases "tl w"; cases "tl (tl w)"; cases "tl (tl (tl w))") auto
  then show ?thesis by (simp add: int_of_digits_def digit_value_def)
qed

lemma year_of_date:
  "map_option int_of_digits (find_year d) = spec_year d"
proof (cases "find (\<lambda>i. four_digits (take 4 (drop i d))) [0..<length d]")
  case None
  then show ?thesis by (simp add: find_year_index spec_year_def)
next
  case (Some i)
  then have w: "four_digits (take 4 (drop i d))" by (auto simp: find_Some_iff)
  then have len: "length (take 4 (drop i d)) = 4" by (simp add: four_digits_def)
  then have "i + 4 \<le> length d" by auto
  then have nth: "take 4 (drop i d) ! 0 = d ! i" "take 4 (drop i d) ! 1 = d ! (i + 1)"
    "take 4 (drop i d) ! 2 = d ! (i + 2)" "take 4 (drop i d) ! 3 = d ! (i + 3)"
    by simp_all
  show ?thesis
    using Some int_of_four_digits [OF len] nth by (simp add: find_year_index spec_year_def)
qed

lemma date_points_spec:
  "date_points c = (case spec_year (cand_date c) of None \<Rightarrow> 0 | Some y \<Rightarrow> min (y - 1900) 25)"
proof (cases "publishedDate c")
  case (Val d)
  show ?thesis
  proof (cases "d = []")
    case True
    with Val show ?thesis by (simp add: date_points_def cand_date_def spec_year_def)
  next
    case False
    with Val show ?thesis
      using year_of_date [of d, symmetric]
      by (cases "find_year d") (auto simp: date_points_def cand_date_def)
  qed
qed (simp_all add: date_points_def cand_date_def spec_year_def)

lemma relevance_score_spec:
  assumes "title c \<noteq> PyNone" and "authors c \<noteq> PyNone"
  shows "relevance_score t a c = Inr (spec_score t a c)"
proof -
  have 1: "title_points t c = Inr (if lower (cand_title c) = lower t then 100
      else if str_in (lower t) (lower (cand_title c)) \<or> str_in (lower (cand_title c)) (lower t)
      then 50 else 0)"
    using assms(1) by (cases "title c") (simp_all add: title_points_def cand_title_def)
  have 2: "author_points a c = Inr (if a \<noteq> [] \<and> (\<exists>x\<in>set (cand_authors c).
              str_in (lower a) (lower x) \<or> str_in (lower x) (lower a)) then 30 else 0)"
    using assms(2) by (cases "authors c") (auto simp: author_points_def cand_authors_def list_ex_iff)
  show ?thesis
    unfolding relevance_score_def 1 2 spec_score_def date_points_spec by simp
qed

lemma dedup_key_fields:
  "dedup_key c = Inr k \<Longrightarrow> title c \<noteq> PyNone \<and> authors c \<noteq> PyNone"
  by (auto simp: dedup_key_def title_key_def split: sum.splits slot.splits)

lemma score_all_spec:
  "\<forall>c\<in>set xs. relevance_score t a c = Inr (f c) \<Longrightarrow> score_all t a xs = Inr (map f xs)"
  by (induction xs) auto

lemma insort_decorated:
  "\<forall>p\<in>set ps. snd p = f (fst p) \<Longrightarrow>
   map fst (insort_key (\<lambda>p. - snd p) (x, f x) ps) = insort_key (\<lambda>c. - f c) x (map fst ps) \<and>
   (\<forall>p\<in>set (insort_key (\<lambda>p. - snd p) (x, f x) ps). snd p = f (fst p))"
  for f :: "'a \<Rightarrow> int"
  by (induction ps) auto

lemma sort_decorated:
  "map fst (sort_key (\<lambda>p. - snd p) (zip xs (map f xs))) = sort_key (\<lambda>c. - f c) xs \<and>
   (\<forall>p\<in>set (sort_key (\<lambda>p. - snd p) (zip xs (map f xs))). snd p = f (fst p))"
  for f :: "'a \<Rightarrow> int"
proof (induction xs)
  case Nil
  then show ?case by simp
next
  case (Cons x xs)
  let ?ps = "sort_key (\<lambda>p. - snd p) (zip xs (map f xs))"
  from Cons have m: "map fst ?ps = sort_key (\<lambda>c. - f c) xs"
    and inv: "\<forall>p\<in>set ?ps. snd p = f (fst p)" by blast+
  have unf: "sort_key (\<lambda>p. - snd p) (zip (x # xs) (map f (x # xs))) =
      insort_key (\<lambda>p. - snd p) (x, f x) ?ps" by simp
  have unf': "sort_key (\<lambda>c. - f c) (x # xs) = insort_key (\<lambda>c. - f c) x (sort_key (\<lambda>c. - f c) xs)"
    by simp
  from insort_decorated [OF inv, of x] show ?case
    unfolding unf unf' m by blast
qed

text \<open>
  C6: on every deduplicated candidate list the key function raises nothing and gives each
  candidate the reference score; the result is the first five elements of a list that has the
  same elements as the input, is in descending order of score, and keeps the input order among
  candidates of equal score.
\<close>

theorem ranking_reference:
  assumes "deduplicate raw = Inr xs"
  shows "(\<forall>c\<in>set xs. relevance_score q a c = Inr (spec_score q a c)) \<and>
    (\<exists>full. rank q a xs = Inr (take 5 full) \<and> length (take 5 full) \<le> 5 \<and>
       mset full = mset xs \<and>
       sorted_wrt (\<lambda>c d. spec_score q a c \<ge> spec_score q a d) full \<and>
       (\<forall>v. filter (\<lambda>c. spec_score q a c = v) full = filter (\<lambda>c. spec_score q a c = v) xs))"
proof -
  from assms have loop: "dedup_loop {} [] raw = Inr xs" by (simp add: deduplicate_def)
  have scores: "\<forall>c\<in>set xs. relevance_score q a c = Inr (spec_score q a c)"
  proof
    fix c assume "c \<in> set xs"
    with dedup_loop_subset [OF loop] have "c \<in> set raw" by auto
    from dedup_loop_keys_ok [OF loop this] obtain k where "dedup_key c = Inr k" ..
    from dedup_key_fields [OF this] show "relevance_score q a c = Inr (spec_score q a c)"
      by (simp add: relevance_score_spec)
  qed
  let ?full = "sort_key (\<lambda>c. - spec_score q a c) xs"
  have r: "rank q a xs = Inr (take 5 ?full)"
    using score_all_spec [OF scores] sort_decorated [of xs "spec_score q a"]
    by (simp add: rank_def)
  have s: "sorted_wrt (\<lambda>c d. spec_score q a c \<ge> spec_score q a d) ?full"
    using sorted_sort_key [of "\<lambda>c. - spec_score q a c" xs]
    by (simp add: sorted_wrt_map)
  have st: "\<forall>v. filter (\<lambda>c. spec_score q a c = v) ?full = filter (\<lambda>c. spec_score q a c = v) xs"
    using sort_key_stable [of "\<lambda>c. - spec_score q a c" _ xs]
  proof -
    { fix v
      have "filter (\<lambda>c. - spec_score q a c = - v) ?full = filter (\<lambda>c. - spec_score q a c = - v) xs"
        by (rule sort_key_stable)
      then have "filter (\<lambda>c. spec_score q a c = v) ?full = filter (\<lambda>c. spec_score q a c = v) xs"
        by simp }
    then show ?thesis by blast
  qed
  from scores r s st show ?thesis by (intro conjI exI [of _ ?full]) simp_all
qed

theorem ranking_reference_witness:
  "deduplicate [emma_1815, dune_b, emma_2020, dune_a, dune_both, dune_both_tight, dune_b] =
     Inr [emma_1815, dune_b, emma_2020, dune_a, dune_both] \<and>
   rank ''Dune'' ''herbert'' [emma_1815, dune_b, emma_2020, dune_a, dune_both] =
     Inr [dune_b, dune_a, dune_both, emma_2020, emma_1815] \<and>
   relevance_score ''Dune'' ''herbert'' emma_1815 = Inr (spec_score ''Dune'' ''herbert'' emma_1815) \<and>
   relevance_score ''Dune'' ''herbert'' dune_b = Inr (spec_score ''Dune'' ''herbert'' dune_b) \<and>
   relevance_score ''Dune'' ''herbert'' emma_2020 = Inr (spec_score ''Dune'' ''herbert'' emma_2020) \<and>
   relevance_score ''Dune'' ''herbert'' dune_a = Inr (spec_score ''Dune'' ''herbert'' dune_a) \<and>
   relevance_score ''Dune'' ''herbert'' dune_both = Inr (spec_score ''Dune'' ''herbert'' dune_both) \<and>
   (\<exists>full. rank ''Dune'' ''herbert'' [emma_1815, dune_b, emma_2020, dune_a, dune_both] =
        Inr (take 5 full) \<and> length (take 5 full) \<le> 5 \<and>
      mset full = mset [emma_1815, dune_b, emma_2020, dune_a, dune_both] \<and>
      sorted_wrt (\<lambda>c d. spec_score ''Dune'' ''herbert'' c \<ge> spec_score ''Dune'' ''herbert'' d) full)"
proof -
  have d: "deduplicate [emma_1815, dune_b, emma_2020, dune_a, dune_both, dune_both_tight, dune_b] =
     Inr [emma_1815, dune_b, emma_2020, dune_a, dune_both]"
    by code_simp
  have r: "rank ''Dune'' ''herbert'' [emma_1815, dune_b, emma_2020, dune_a, dune_both] =
     Inr [dune_b, dune_a, dune_both, emma_2020, emma_1815]"
    by code_simp
  note t = ranking_reference [OF d, of "''Dune''" "''herbert''"]
  from t have s: "\<forall>c\<in>set [emma_1815, dune_b, emma_2020, dune_a, dune_both].
      relevance_score ''Dune'' ''herbert'' c = Inr (spec_score ''Dune'' ''herbert'' c)"
    by (rule conjunct1)
  from t have e: "\<exists>full. rank ''Dune'' ''herbert'' [emma_1815, dune_b, emma_2020, dune_a, dune_both] =
        Inr (take 5 full) \<and> length (take 5 full) \<le> 5 \<and>
      mset full = mset [emma_1815, dune_b, emma_2020, dune_a, dune_both] \<and>
      sorted_wrt (\<lambda>c d. spec_score ''Dune'' ''herbert'' c \<ge> spec_score ''Dune'' ''herbert'' d) full"
    by blast
  from s have "relevance_score ''Dune'' ''herbert'' emma_1815 = Inr (spec_score ''Dune'' ''herbert'' emma_1815)"
    "relevance_score ''Dune'' ''herbert'' dune_b = Inr (spec_score ''Dune'' ''herbert'' dune_b)"
    "relevance_score ''Dune'' ''herbert'' emma_2020 = Inr (spec_score ''Dune'' ''herbert'' emma_2020)"
    "relevance_score ''Dune'' ''herbert'' dune_a = Inr (spec_score ''Dune'' ''herbert'' dune_a)"
    "relevance_score ''Dune'' ''herbert'' dune_both = Inr (spec_score ''Dune'' ''herbert'' dune_both)"
    by simp_all
  with d r e show ?thesis by (intro conjI)
qed

text \<open>
  C7 at the query \<^verbatim>\<open>title="Emma"\<close>: the exact title match published in 1815 scores
  \<open>100 + (1815 - 1900) = 15\<close>, the partial match of 2020 scores \<open>50 + 25 = 75\<close> and is ranked
  first.
\<close>

theorem exact_old_ranked_below:
  "relevance_score ''Emma'' [] emma_1815 = Inr 15 \<and>
   relevance_score ''Emma'' [] emma_2020 = Inr 75 \<and>
   deduplicate [emma_1815, emma_2020] = Inr [emma_1815, emma_2020] \<and>
   rank ''Emma'' [] [emma_1815, emma_2020] = Inr [emma_2020, emma_1815]"
  by code_simp

section \<open>Properties of the backfill and of the cover files\<close>

lemma in_update: "(k, v) \<in> set (AList.update key x ups) \<Longrightarrow> k = key \<or> (k, v) \<in> set ups"
  by (induction ups) (auto split: if_splits)

lemma in_put_if: "(k, v) \<in> set (put_if c key x ups) \<Longrightarrow> (c \<and> k = key) \<or> (k, v) \<in> set ups"
  by (cases c) (auto simp: put_if_def dest: in_update)

text \<open>Each of the nine guarded assignments leaves a field alone that the note has.\<close>

lemma guarded_fields:
  "(k, v) \<in> set (field_updates book api_data) \<Longrightarrow>
   (k = ''title'' \<and> \<not> truthy (note_title book)) \<or>
   (k = ''subtitle'' \<and> \<not> truthy (note_subtitle book)) \<or>
   (k = ''author'' \<and> note_author book = []) \<or>
   (k = ''publisher'' \<and> \<not> truthy (note_publisher book)) \<or>
   (k = ''publish'' \<and> \<not> truthy (note_publish book)) \<or>
   (k = ''total'' \<and> \<not> truthy_int (note_total book)) \<or>
   (k = ''isbn'' \<and> \<not> truthy (note_isbn book)) \<or>
   (k = ''cover'' \<and> \<not> truthy (note_cover book)) \<or>
   (k = ''category'' \<and> note_category book = [])"
  apply (unfold field_updates_def Let_def)
  apply ((drule in_put_if, erule disjE, (simp; fail))+)
  apply simp
  done

text \<open>The cleaner requests nothing when the cover file is on disk.\<close>

lemma cleaner_skips_fetch:
  "cover_filename book api_data = Inr name \<Longrightarrow> path_join covers_dir name \<in> files w \<Longrightarrow>
   \<exists>ups. prepare_updates covers_dir net writable w book api_data = Inr (ups, w)"
  by (simp add: prepare_updates_def local_cover_def)

text \<open>
  C4 at a note whose local cover is present and whose file exists (only the publisher is
  missing): the updates hold \<^verbatim>\<open>localCover\<close>, with another path.
\<close>

theorem valid_local_cover_overwritten:
  "get_missing_fields (files world_old_cover) note_old_cover = [''publisher''] \<and>
   prepare_updates the_covers_dir net_ok disk_ok world_old_cover note_old_cover dune_with_cover =
     Inr ([(''localCover'',
            Str ''References/Attachments/Book Search Covers/Frank Herbert - Dune - 1965.jpg'')],
          \<lparr>files = {the_covers_dir @ ''/Frank Herbert - Dune - 1965.jpg'',
                    the_covers_dir @ ''/my-dune.jpg''},
           fetches = [''http://books.example/dune.jpg'']\<rparr>)"
  by code_simp

text \<open>
  C5 at a note without local cover: the first run offers \<^verbatim>\<open>localCover\<close>; on the note with the
  updates applied, and in the world the first run left, the second run offers it again.
\<close>

theorem local_cover_offered_twice:
  "prepare_updates the_covers_dir net_ok disk_ok world_empty note_no_cover dune_with_cover =
     Inr ([(''localCover'',
            Str ''References/Attachments/Book Search Covers/Frank Herbert - Dune - 1965.jpg'')],
          world_has_cover\<lparr>fetches := [''http://books.example/dune.jpg'']\<rparr>) \<and>
   note_localCover (backfill_applied note_no_cover
      [(''localCover'',
        Str ''References/Attachments/Book Search Covers/Frank Herbert - Dune - 1965.jpg'')]) =
     Some ''References/Attachments/Book Search Covers/Frank Herbert - Dune - 1965.jpg'' \<and>
   prepare_updates the_covers_dir net_ok disk_ok
      (world_has_cover\<lparr>fetches := [''http://books.example/dune.jpg'']\<rparr>)
      (backfill_applied note_no_cover
        [(''localCover'',
          Str ''References/Attachments/Book Search Covers/Frank Herbert - Dune - 1965.jpg'')])
      dune_with_cover =
     Inr ([(''localCover'',
            Str ''References/Attachments/Book Search Covers/Frank Herbert - Dune - 1965.jpg'')],
          world_has_cover\<lparr>fetches := [''http://books.example/dune.jpg'']\<rparr>)"
  by code_simp

text \<open>
  C8 in \<^verbatim>\<open>create_book_note\<close>: the cover file is on disk, and the URL is requested all the same;
  the cleaner, in the same world, requests nothing.
\<close>

theorem create_note_fetches_existing_cover:
  "path_join the_covers_dir ''Frank Herbert - Dune - 1965.jpg'' \<in> files world_has_cover \<and>
   create_book_note_cover the_covers_dir net_ok disk_ok world_has_cover dune_with_cover =
     Inr (''References/Attachments/Book Search Covers/Frank Herbert - Dune - 1965.jpg'',
          world_has_cover\<lparr>fetches := [''http://books.example/dune.jpg'']\<rparr>) \<and>
   prepare_updates the_covers_dir net_ok disk_ok world_has_cover note_no_cover dune_with_cover =
     Inr ([(''localCover'',
            Str ''References/Attachments/Book Search Covers/Frank Herbert - Dune - 1965.jpg'')],
          world_has_cover)"
  by code_simp

section \<open>Properties of the collection of raw results\<close>

lemma two_orders: "mset c = mset [a, b] \<Longrightarrow> c = [a, b] \<or> c = [b, a]"
proof -
  assume m: "mset c = mset [a, b]"
  then have "length c = 2" using mset_eq_length [OF m] by simp
  then obtain x y where c: "c = [x, y]"
    by (cases c; cases "tl c") auto
  with m show ?thesis by (auto simp: add_eq_conv_diff)
qed

text \<open>
  C9, as stated, at two adapters that both answer: when Open Library completes first its result
  comes first, when Google completes first the Google result does.
\<close>

theorem completion_order_counterexample:
  "map source (search_multiple_sources google_answers open_library_answers
      [''google'', ''openlibrary''] ''Dune'' ''Herbert'') = [Val ''google'', Val ''openlibrary''] \<and>
   map source (search_multiple_sources google_answers open_library_answers
      [''openlibrary'', ''google''] ''Dune'' ''Herbert'') = [Val ''openlibrary'', Val ''google''] \<and>
   search_multiple_sources google_answers open_library_answers
      [''google'', ''openlibrary''] ''Dune'' ''Herbert'' \<noteq>
   search_multiple_sources google_answers open_library_answers
      [''openlibrary'', ''google''] ''Dune'' ''Herbert''"
  by code_simp

text \<open>
  C9, amended: \<^verbatim>\<open>search_multiple_sources\<close> appends in completion order; two runs over the same
  adapter responses return the same results up to order, and the order (Google, Open Library)
  when Google completes first. The raw list of \<^verbatim>\<open>search_books_by_title_author\<close> is built
  sequentially and has a fixed order: for each of the three search terms in turn, the Google
  results for the term, then the Open Library result.
\<close>

theorem collection_order:
  assumes "mset c1 = mset [''google'', ''openlibrary'']"
    and "mset c2 = mset [''google'', ''openlibrary'']"
  shows "mset (search_multiple_sources g ol c1 t a) = mset (search_multiple_sources g ol c2 t a) \<and>
    search_multiple_sources g ol [''google'', ''openlibrary''] t a =
      (case g (strip (t @ '' '' @ a)) of Some r \<Rightarrow> [r\<lparr>source := Val ''google''\<rparr>] | None \<Rightarrow> []) @
      (case ol t a of Some r \<Rightarrow> [r\<lparr>source := Val ''openlibrary''\<rparr>] | None \<Rightarrow> []) \<and>
    collect_results gm ol t a =
      concat (map (\<lambda>search_term. gm search_term @
                (case ol t a of Some r \<Rightarrow> [r\<lparr>source := Val ''openlibrary''\<rparr>] | None \<Rightarrow> []))
        (search_terms t a))"
proof -
  have go: "search_multiple_sources g ol [''google'', ''openlibrary''] t a =
      (case g (strip (t @ '' '' @ a)) of Some r \<Rightarrow> [r\<lparr>source := Val ''google''\<rparr>] | None \<Rightarrow> []) @
      (case ol t a of Some r \<Rightarrow> [r\<lparr>source := Val ''openlibrary''\<rparr>] | None \<Rightarrow> [])"
    by (simp add: search_multiple_sources_def split: option.splits)
  have og: "search_multiple_sources g ol [''openlibrary'', ''google''] t a =
      (case ol t a of Some r \<Rightarrow> [r\<lparr>source := Val ''openlibrary''\<rparr>] | None \<Rightarrow> []) @
      (case g (strip (t @ '' '' @ a)) of Some r \<Rightarrow> [r\<lparr>source := Val ''google''\<rparr>] | None \<Rightarrow> [])"
    by (simp add: search_multiple_sources_def split: option.splits)
  have same: "mset (search_multiple_sources g ol [''google'', ''openlibrary''] t a) =
      mset (search_multiple_sources g ol [''openlibrary'', ''google''] t a)"
    unfolding go og by simp
  have m: "mset (search_multiple_sources g ol c1 t a) = mset (search_multiple_sources g ol c2 t a)"
    using two_orders [OF assms(1)] two_orders [OF assms(2)] same by auto
  have c: "collect_results gm ol t a =
      concat (map (\<lambda>search_term. gm search_term @
                (case ol t a of Some r \<Rightarrow> [r\<lparr>source := Val ''openlibrary''\<rparr>] | None \<Rightarrow> []))
        (search_terms t a))"
    by (simp add: collect_results_def search_terms_def Let_def split: option.splits)
  from m go c show ?thesis by simp
qed

theorem collection_order_witness:
  "mset [''google'', ''openlibrary''] = mset [''google'', ''openlibrary''] \<and>
   mset [''openlibrary'', ''google''] = mset [''google'', ''openlibrary''] \<and>
   mset (search_multiple_sources google_answers open_library_answers
      [''google'', ''openlibrary''] ''Dune'' ''Herbert'') =
   mset (search_multiple_sources google_answers open_library_answers
      [''openlibrary'', ''google''] ''Dune'' ''Herbert'') \<and>
   map source (collect_results google_multiple_answers open_library_answers ''Dune'' ''Herbert'') =
     [Val ''google'', Val ''openlibrary'', Val ''google'', Val ''openlibrary'',
      Val ''google'', Val ''openlibrary'']"
proof -
  have 1: "mset [''google'', ''openlibrary''] = mset [''google'', ''openlibrary'']" by simp
  have 2: "mset [''openlibrary'', ''google''] = mset [''google'', ''openlibrary'']" by simp
  have 3: "map source (collect_results google_multiple_answers open_library_answers ''Dune'' ''Herbert'') =
     [Val ''google'', Val ''openlibrary'', Val ''google'', Val ''openlibrary'',
      Val ''google'', Val ''openlibrary'']"
    by code_simp
  from collection_order [OF 1 2, of google_answers open_library_answers "''Dune''" "''Herbert''"] 1 2 3
  show ?thesis by blast
qed

section \<open>Properties of update_and_save\<close>

lemma new_content_no_frontmatter:
  "\<not> prefix ''---'' content \<Longrightarrow> new_content lib content updates = Inr None"
  by (simp add: new_content_def)

lemma new_content_unclosed:
  "prefix ''---'' content \<Longrightarrow> index_of ''---'' (drop 3 content) = None \<Longrightarrow>
   new_content lib content updates = Inl ValueError"
  by (simp add: new_content_def)

lemma new_content_load_error:
  "prefix ''---'' content \<Longrightarrow> index_of ''---'' (drop 3 content) = Some i \<Longrightarrow>
   safe_load lib (take i (drop 3 content)) = Inl e \<Longrightarrow>
   new_content lib content updates = Inl e"
  by (simp add: new_content_def)

text \<open>Frontmatter that is not a dictionary raises TypeError at the first update that is not None.\<close>

lemma apply_updates_not_dict:
  "\<forall>d. frontmatter \<noteq> YDict d \<Longrightarrow> (key, v) \<in> set updates \<Longrightarrow> v \<noteq> YNull \<Longrightarrow>
   apply_updates lib frontmatter updates = Inl TypeError"
proof (induction updates)
  case Nil
  then show ?case by simp
next
  case (Cons u updates)
  obtain k' v' where u: "u = (k', v')" by (cases u)
  from Cons.prems(1) have s: "\<And>x. set_item frontmatter k' x = Inl TypeError"
    by (cases frontmatter) (simp_all add: set_item_def)
  show ?case
  proof (cases "v' = YNull")
    case True
    with Cons u show ?thesis by auto
  next
    case False
    with u s show ?thesis by simp
  qed
qed

lemma update_and_save_True:
  "update_and_save lib disk fs filepath updates = (True, fs') \<Longrightarrow>
   \<exists>content text. fs filepath = Some content \<and> new_content lib content updates = Inr (Some text) \<and>
     fs' = fs(filepath \<mapsto> text)"
  by (auto simp: update_and_save_def split: option.splits sum.splits write_outcome.splits)

text \<open>When the final write itself raises, the file holds what was written until then.\<close>

lemma update_and_save_write_failed:
  "update_and_save example_lib (WriteFailed ''---'') [note_path \<mapsto> good_note] note_path
     publisher_update = (False, [note_path \<mapsto> ''---''])"
proof -
  have "new_content example_lib good_note publisher_update =
      Inr (Some (''---'' @ [CHR 0x0A] @ ''title: Dune'' @ [CHR 0x0A] @ ''publisher: Ace''
        @ [CHR 0x0A] @ ''---'' @ [CHR 0x0A] @ ''Body''))"
    by code_simp
  then show ?thesis by (simp add: update_and_save_def)
qed

text \<open>
  C10: when the file cannot be read, or its content does not begin with \<^verbatim>\<open>---\<close>, or an exception
  is raised before the final write (in building the new content, or in opening the file for
  writing), \<^verbatim>\<open>update_and_save\<close> returns \<^verbatim>\<open>False\<close> and every file is as it was.
\<close>

theorem update_failure_keeps_file:
  assumes "fs filepath = None \<or>
    (\<exists>content. fs filepath = Some content \<and>
       (\<not> prefix ''---'' content \<or> (\<exists>e. new_content lib content updates = Inl e))) \<or>
    disk = OpenFailed"
  shows "update_and_save lib disk fs filepath updates = (False, fs)"
proof -
  from assms consider
      (unreadable) "fs filepath = None"
    | (plain) content where "fs filepath = Some content" "\<not> prefix ''---'' content"
    | (raised) content e where "fs filepath = Some content" "new_content lib content updates = Inl e"
    | (locked) "disk = OpenFailed"
    by (elim disjE exE conjE) blast+
  then show ?thesis
  proof cases
    case unreadable
    then show ?thesis by (simp add: update_and_save_def)
  next
    case plain
    then show ?thesis by (simp add: update_and_save_def new_content_no_frontmatter)
  next
    case raised
    then show ?thesis by (simp add: update_and_save_def)
  next
    case locked
    then show ?thesis
      by (simp add: update_and_save_def split: option.splits sum.splits)
  qed
qed

theorem update_failure_keeps_file_witness:
  "\<not> prefix ''---'' plain_note \<and>
   update_and_save example_lib Written [note_path \<mapsto> plain_note] note_path publisher_update =
     (False, [note_path \<mapsto> plain_note]) \<and>
   new_content example_lib broken_note publisher_update = Inl YAMLError \<and>
   update_and_save example_lib Written [note_path \<mapsto> broken_note] note_path publisher_update =
     (False, [note_path \<mapsto> broken_note]) \<and>
   new_content example_lib unclosed_note publisher_update = Inl ValueError \<and>
   update_and_save example_lib Written [note_path \<mapsto> unclosed_note] note_path publisher_update =
     (False, [note_path \<mapsto> unclosed_note]) \<and>
   update_and_save example_lib Written Map.empty note_path publisher_update = (False, Map.empty) \<and>
   update_and_save example_lib OpenFailed [note_path \<mapsto> good_note] note_path publisher_update =
     (False, [note_path \<mapsto> good_note])"
proof -
  have p: "\<not> prefix ''---'' plain_note" by code_simp
  have b: "new_content example_lib broken_note publisher_update = Inl YAMLError" by code_simp
  have u: "new_content example_lib unclosed_note publisher_update = Inl ValueError" by code_simp
  note t = update_failure_keeps_file [of _ note_path example_lib publisher_update]
  from p have 1: "update_and_save example_lib Written [note_path \<mapsto> plain_note] note_path publisher_update =
     (False, [note_path \<mapsto> plain_note])"
    by (intro t) simp
  from b have 2: "update_and_save example_lib Written [note_path \<mapsto> broken_note] note_path publisher_update =
     (False, [note_path \<mapsto> broken_note])"
    by (intro t) simp
  from u have 3: "update_and_save example_lib Written [note_path \<mapsto> unclosed_note] note_path publisher_update =
     (False, [note_path \<mapsto> unclosed_note])"
    by (intro t) simp
  have 4: "update_and_save example_lib Written Map.empty note_path publisher_update = (False, Map.empty)"
    by (intro t) simp
  have 5: "update_and_save example_lib OpenFailed [note_path \<mapsto> good_note] note_path publisher_update =
     (False, [note_path \<mapsto> good_note])"
    by (intro t) simp
  from p b u 1 2 3 4 5 show ?thesis by (intro conjI)
qed

end
